theory Spec2Isabelle
  imports Complex_Main "HOL-Library.AList"
begin

section \<open>Synchronising local files with a remote drive\<close>

text \<open>
  A shallow embedding of \<^verbatim>\<open>main.py\<close>: the classes \<^verbatim>\<open>Syncable\<close> and
  \<^verbatim>\<open>ServiceAccount\<close> and the function \<^verbatim>\<open>sync_from_file\<close>. Every method takes
  the state of the world (the local file system, the remote drive, a trace of the
  requests and writes made) and returns its result, or the exception it raises, with the
  world it leaves behind.
\<close>

subsection \<open>JSON documents and the Python operations on them\<close>

text \<open>
  What \<^verbatim>\<open>json.load\<close> returns. A dict is an association list in insertion order;
  \<^verbatim>\<open>json.load\<close> never produces a key twice. Numbers are opaque to the program.
\<close>

datatype json =
    JNull
  | JBool bool
  | JNum rat
  | JStr string
  | JArr "json list"
  | JObj "(string \<times> json) list"

datatype error =
    FileNotFoundError
  | IsADirectoryError
  | PermissionError
  | UnicodeDecodeError
  | JSONDecodeError
  | KeyError string
  | TypeError
  | AttributeError
  | ValueError
  | OverflowError
  | OSError
  | HttpError








text \<open>\<^verbatim>\<open>path.name\<close>: the last component of the path.\<close>

definition basename :: "string \<Rightarrow> string" where
  "basename p =
     rev (takeWhile (\<lambda>c. c \<noteq> CHR ''/'') (dropWhile (\<lambda>c. c = CHR ''/'') (rev p)))"

subsection \<open>Timestamps\<close>

text \<open>
  A \<^verbatim>\<open>datetime\<close>: the wall-clock reading in microseconds since the epoch and the
  offset of its time zone from UTC in microseconds, \<open>None\<close> for a naive value. Times
  are kept in whole microseconds, the resolution of \<^verbatim>\<open>datetime\<close>.
\<close>

record datetime =
  wall :: int
  utcoffset :: "int option"

text \<open>
  \<^verbatim>\<open>datetime.fromtimestamp(t, tz=timezone.utc)\<close>, with \<open>t\<close> in microseconds. A
  \<^verbatim>\<open>datetime\<close> holds the years 1 to 9999. Outside them CPython on 64-bit Linux
  raises ValueError while \<^verbatim>\<open>gmtime\<close> can still name the year, OSError while the
  seconds still fit \<^verbatim>\<open>time_t\<close>, and OverflowError beyond.
\<close>

definition fromtimestamp_utc :: "int \<Rightarrow> error + datetime" where
  "fromtimestamp_utc t =
     (if - 62135596800000000 \<le> t \<and> t \<le> 253402300799999999 then
        Inr \<lparr>wall = t, utcoffset = Some 0\<rparr>
      else if - 67768040609740800000000 \<le> t \<and> t \<le> 67767976233532799999999 then
        Inl ValueError
      else if - 9223372036854775808000000 \<le> t \<and> t \<le> 9223372036854775807999999 then
        Inl OSError
      else Inl OverflowError)"

text \<open>
  \<^verbatim>\<open>a < b\<close> on datetimes: two aware values are compared as instants, two naive ones
  by their wall clocks, and a naive value against an aware one raises TypeError.
\<close>

definition dt_lt :: "datetime \<Rightarrow> datetime \<Rightarrow> error + bool" where
  "dt_lt a b =
     (case (utcoffset a, utcoffset b) of
        (Some oa, Some ob) \<Rightarrow> Inr (wall a - oa < wall b - ob)
      | (None, None) \<Rightarrow> Inr (wall a < wall b)
      | _ \<Rightarrow> Inl TypeError)"

definition dt_gt :: "datetime \<Rightarrow> datetime \<Rightarrow> error + bool" where
  "dt_gt a b = dt_lt b a"

text \<open>
  The times of the form \<^verbatim>\<open>YYYY-MM-DDTHH:MM:SS\<close>, with an optional fraction of a
  second and an optional zone \<^verbatim>\<open>Z\<close>, \<^verbatim>\<open>+HH:MM\<close> or \<^verbatim>\<open>-HH:MM\<close>, as
  \<^verbatim>\<open>datetime.fromisoformat\<close> reads them (Python 3.11 and later): the fraction is
  cut after six digits, \<^verbatim>\<open>Z\<close> and a zero offset give UTC, no zone gives a naive
  value. \<open>iso_time\<close> is \<open>None\<close> on every other string.
\<close>

definition digit :: "char \<Rightarrow> nat option" where
  "digit c =
     map_of [(CHR ''0'', 0), (CHR ''1'', 1), (CHR ''2'', 2), (CHR ''3'', 3), (CHR ''4'', 4),
             (CHR ''5'', 5), (CHR ''6'', 6), (CHR ''7'', 7), (CHR ''8'', 8), (CHR ''9'', 9)] c"

fun number_from :: "nat \<Rightarrow> string \<Rightarrow> nat option" where
  "number_from acc [] = Some acc"
| "number_from acc (c # cs) =
     (case digit c of None \<Rightarrow> None | Some d \<Rightarrow> number_from (10 * acc + d) cs)"

definition number :: "string \<Rightarrow> nat option" where
  "number s = (if s = [] then None else number_from 0 s)"

definition is_leap :: "nat \<Rightarrow> bool" where
  "is_leap y = (y mod 4 = 0 \<and> (y mod 100 \<noteq> 0 \<or> y mod 400 = 0))"

definition days_in_month :: "nat \<Rightarrow> nat \<Rightarrow> nat" where
  "days_in_month y m =
     (if m = 2 then (if is_leap y then 29 else 28)
      else if m = 4 \<or> m = 6 \<or> m = 9 \<or> m = 11 then 30 else 31)"

text \<open>The days from 1970-01-01 to a date of the proleptic Gregorian calendar.\<close>

definition days_from_civil :: "int \<Rightarrow> int \<Rightarrow> int \<Rightarrow> int" where
  "days_from_civil y m d =
     (let y' = (if m \<le> 2 then y - 1 else y);
          era = y' div 400;
          yoe = y' - era * 400;
          mp = (m + 9) mod 12;
          doy = (153 * mp + 2) div 5 + d - 1;
          doe = yoe * 365 + yoe div 4 - yoe div 100 + doy
      in era * 146097 + doe - 719468)"

definition iso_fraction :: "string \<Rightarrow> (nat \<times> string) option" where
  "iso_fraction rest =
     (case rest of
        c # cs \<Rightarrow>
          (if c = CHR ''.'' then
             (let ds = takeWhile (\<lambda>x. digit x \<noteq> None) cs in
              case number (take 6 (ds @ ''000000'')) of
                None \<Rightarrow> None
              | Some us \<Rightarrow>
                  if ds = [] then None else Some (us, dropWhile (\<lambda>x. digit x \<noteq> None) cs))
           else Some (0, rest))
      | [] \<Rightarrow> Some (0, rest))"

definition iso_zone :: "string \<Rightarrow> int option option" where
  "iso_zone z =
     (if z = [] then Some None
      else if z = ''Z'' then Some (Some 0)
      else if length z = 6 \<and> (z ! 0 = CHR ''+'' \<or> z ! 0 = CHR ''-'') \<and> z ! 3 = CHR '':'' then
        (case (number (take 2 (drop 1 z)), number (drop 4 z)) of
           (Some hh, Some mm) \<Rightarrow>
             if hh \<le> 23 \<and> mm \<le> 59 then
               Some (Some ((if z ! 0 = CHR ''-'' then - 1 else 1)
                            * (int hh * 3600 + int mm * 60) * 1000000))
             else None
         | _ \<Rightarrow> None)
      else None)"

definition iso_time :: "string \<Rightarrow> datetime option" where
  "iso_time s =
     (if length s < 19 \<or> s ! 4 \<noteq> CHR ''-'' \<or> s ! 7 \<noteq> CHR ''-'' \<or> s ! 10 \<noteq> CHR ''T''
         \<or> s ! 13 \<noteq> CHR '':'' \<or> s ! 16 \<noteq> CHR '':'' then None
      else
        (case (number (take 4 s), number (take 2 (drop 5 s)), number (take 2 (drop 8 s)),
               number (take 2 (drop 11 s)), number (take 2 (drop 14 s)),
               number (take 2 (drop 17 s))) of
           (Some y, Some m, Some d, Some h, Some mi, Some sec) \<Rightarrow>
             (if 1 \<le> y \<and> 1 \<le> m \<and> m \<le> 12 \<and> 1 \<le> d \<and> d \<le> days_in_month y m
                 \<and> h \<le> 23 \<and> mi \<le> 59 \<and> sec \<le> 59 then
                (case iso_fraction (drop 19 s) of
                   None \<Rightarrow> None
                 | Some (us, z) \<Rightarrow>
                     (case iso_zone z of
                        None \<Rightarrow> None
                      | Some off \<Rightarrow>
                          Some \<lparr>wall = (((days_from_civil (int y) (int m) (int d) * 24 + int h) * 60
                                          + int mi) * 60 + int sec) * 1000000 + int us,
                                utcoffset = off\<rparr>))
              else None)
         | _ \<Rightarrow> None))"

text \<open>
  The drive reports a modification time as an RFC 3339 time in UTC with three digits of
  a second's fraction, \<^verbatim>\<open>YYYY-MM-DDTHH:MM:SS.mmmZ\<close>.
\<close>

definition civil_from_days :: "int \<Rightarrow> int \<times> int \<times> int" where
  "civil_from_days z0 =
     (let z = z0 + 719468;
          era = z div 146097;
          doe = z - era * 146097;
          yoe = (doe - doe div 1460 + doe div 36524 - doe div 146096) div 365;
          doy = doe - (365 * yoe + yoe div 4 - yoe div 100);
          mp = (5 * doy + 2) div 153;
          d = doy - (153 * mp + 2) div 5 + 1;
          m = (if mp < 10 then mp + 3 else mp - 9);
          y = yoe + era * 400 + (if m \<le> 2 then 1 else 0)
      in (y, m, d))"

definition digit_char :: "int \<Rightarrow> char" where
  "digit_char d = ''0123456789'' ! nat (d mod 10)"

definition pad2 :: "int \<Rightarrow> string" where
  "pad2 k = [digit_char (k div 10), digit_char k]"

definition pad3 :: "int \<Rightarrow> string" where
  "pad3 k = [digit_char (k div 100), digit_char (k div 10), digit_char k]"

definition pad4 :: "int \<Rightarrow> string" where
  "pad4 k = [digit_char (k div 1000), digit_char (k div 100), digit_char (k div 10), digit_char k]"

definition rfc3339_utc :: "int \<Rightarrow> string" where
  "rfc3339_utc t =
     (let ms = t div 1000;
          secs = ms div 1000;
          days = secs div 86400;
          sod = secs mod 86400;
          (y, m, d) = civil_from_days days
      in pad4 y @ ''-'' @ pad2 m @ ''-'' @ pad2 d @ ''T''
         @ pad2 (sod div 3600) @ '':'' @ pad2 (sod div 60 mod 60) @ '':'' @ pad2 (sod mod 60)
         @ ''.'' @ pad3 (ms mod 1000) @ ''Z'')"

subsection \<open>The world: the local file system and the remote drive\<close>

text \<open>
  The content of a file: bytes that are no text, a text that is no JSON, or a text that
  \<^verbatim>\<open>json.load\<close> reads as the given document, which is also what \<^verbatim>\<open>json.dump\<close>
  writes for it.
\<close>

datatype content = Binary string | Text string | Doc json

definition json_load :: "content \<Rightarrow> error + json" where
  "json_load c =
     (case c of
        Binary b \<Rightarrow> Inl UnicodeDecodeError
      | Text t \<Rightarrow> Inl JSONDecodeError
      | Doc j \<Rightarrow> Inr j)"

text \<open>
  An entry of the file system: a directory or a regular file with its content, its
  modification time in microseconds, and whether the user may read and write it. The
  manifest, the key files and the synchronised files live in the same file system.
\<close>

record local_file =
  data :: content
  st_mtime :: int
  is_dir :: bool
  readable :: bool
  writable :: bool

record remote_file =
  name :: string
  parents :: "json list"
  media :: content
  modifiedTime :: string

text \<open>The requests executed against the drive and the writes to local files.\<close>

datatype event =
    Create string json content
  | Update json string content
  | GetMedia json
  | GetModified json
  | WriteBytes string
  | Dump json

text \<open>
  \<open>new_file_error\<close> is the error that creating a file at a path raises, \<open>None\<close> where
  the file can be created. \<open>key_error\<close> is the error the credentials library raises for
  a document that is no valid service-account key, \<open>None\<close> for a valid one.
  \<open>other_isoformat\<close> is what \<^verbatim>\<open>datetime.fromisoformat\<close> does on the strings that
  \<open>iso_time\<close> leaves out. \<open>folders\<close> are the folder ids the drive accepts as parents,
  \<open>refused\<close> the requests it refuses (permissions, quota), \<open>id_supply\<close> the ids it
  will assign to the next objects created, \<open>clock\<close> the current instant in
  microseconds.
\<close>

record world =
  fs :: "string \<rightharpoonup> local_file"
  new_file_error :: "string \<Rightarrow> error option"
  key_error :: "json \<Rightarrow> error option"
  other_isoformat :: "string \<Rightarrow> error + datetime"
  drive :: "string \<rightharpoonup> remote_file"
  folders :: "string set"
  refused :: "event set"
  id_supply :: "string list"
  clock :: int
  trace :: "event list"

definition emit :: "event \<Rightarrow> world \<Rightarrow> world" where
  "emit e w = w\<lparr>trace := trace w @ [e]\<rparr>"

text \<open>\<^verbatim>\<open>path.stat().st_mtime\<close>: any entry has one.\<close>

definition stat :: "world \<Rightarrow> string \<Rightarrow> error + int" where
  "stat w p = (case fs w p of None \<Rightarrow> Inl FileNotFoundError | Some f \<Rightarrow> Inr (st_mtime f))"

text \<open>Opening a file for reading, and its content.\<close>

definition open_read :: "world \<Rightarrow> string \<Rightarrow> error + content" where
  "open_read w p =
     (case fs w p of
        None \<Rightarrow> Inl FileNotFoundError
      | Some f \<Rightarrow>
          if is_dir f then Inl IsADirectoryError
          else if \<not> readable f then Inl PermissionError
          else Inr (data f))"

text \<open>
  Opening a file for writing and writing it whole: the file gets the content and the
  current time, and time moves on.
\<close>

definition write_file :: "world \<Rightarrow> string \<Rightarrow> content \<Rightarrow> error + world" where
  "write_file w p c =
     (case fs w p of
        Some f \<Rightarrow>
          if is_dir f then Inl IsADirectoryError
          else if \<not> writable f then Inl PermissionError
          else Inr (w\<lparr>fs := (fs w)(p \<mapsto> f\<lparr>data := c, st_mtime := clock w\<rparr>), clock := clock w + 1\<rparr>)
      | None \<Rightarrow>
          (case new_file_error w p of
             Some e \<Rightarrow> Inl e
           | None \<Rightarrow>
               Inr (w\<lparr>fs := (fs w)(p \<mapsto> \<lparr>data = c, st_mtime = clock w, is_dir = False,
                                          readable = True, writable = True\<rparr>),
                      clock := clock w + 1\<rparr>)))"

text \<open>\<^verbatim>\<open>datetime.fromisoformat\<close>.\<close>

definition fromisoformat :: "world \<Rightarrow> string \<Rightarrow> error + datetime" where
  "fromisoformat w s = (case iso_time s of Some dt \<Rightarrow> Inr dt | None \<Rightarrow> other_isoformat w s)"

text \<open>
  The drive, as the program uses it. A request is recorded when it is executed, whether
  or not the drive accepts it. An object that is written gets the drive's current time,
  and time moves on.
\<close>

definition files_create :: "world \<Rightarrow> string \<Rightarrow> json \<Rightarrow> content \<Rightarrow> (error + json) \<times> world" where
  "files_create w nm parent body =
     (let w1 = emit (Create nm parent body) w in
      if Create nm parent body \<in> refused w then (Inl HttpError, w1)
      else
        (case parent of
           JStr p \<Rightarrow>
             (if p \<in> folders w then
                (case id_supply w of
                   [] \<Rightarrow> (Inl HttpError, w1)
                 | i # ids \<Rightarrow>
                     (Inr (JStr i),
                      w1\<lparr>drive := (drive w)(i \<mapsto> \<lparr>name = nm, parents = [parent], media = body,
                                                 modifiedTime = rfc3339_utc (clock w)\<rparr>),
                         id_supply := ids, clock := clock w + 1\<rparr>))
              else (Inl HttpError, w1))
         | _ \<Rightarrow> (Inl HttpError, w1)))"

definition files_update :: "world \<Rightarrow> json \<Rightarrow> string \<Rightarrow> content \<Rightarrow> (error + json) \<times> world" where
  "files_update w fileId nm body =
     (let w1 = emit (Update fileId nm body) w in
      if Update fileId nm body \<in> refused w then (Inl HttpError, w1)
      else
        (case fileId of
           JStr i \<Rightarrow>
             (case drive w i of
                None \<Rightarrow> (Inl HttpError, w1)
              | Some rf \<Rightarrow>
                  (Inr fileId,
                   w1\<lparr>drive := (drive w)(i \<mapsto> rf\<lparr>name := nm, media := body,
                                                 modifiedTime := rfc3339_utc (clock w)\<rparr>),
                      clock := clock w + 1\<rparr>))
         | _ \<Rightarrow> (Inl HttpError, w1)))"

definition files_get_media :: "world \<Rightarrow> json \<Rightarrow> (error + content) \<times> world" where
  "files_get_media w fileId =
     (let w1 = emit (GetMedia fileId) w in
      if GetMedia fileId \<in> refused w then (Inl HttpError, w1)
      else
        (case fileId of
           JStr i \<Rightarrow>
             (case drive w i of
                None \<Rightarrow> (Inl HttpError, w1)
              | Some rf \<Rightarrow> (Inr (media rf), w1))
         | _ \<Rightarrow> (Inl HttpError, w1)))"

definition files_get_modifiedTime :: "world \<Rightarrow> json \<Rightarrow> (error + string) \<times> world" where
  "files_get_modifiedTime w fileId =
     (let w1 = emit (GetModified fileId) w in
      if GetModified fileId \<in> refused w then (Inl HttpError, w1)
      else
        (case fileId of
           JStr i \<Rightarrow>
             (case drive w i of
                None \<Rightarrow> (Inl HttpError, w1)
              | Some rf \<Rightarrow> (Inr (modifiedTime rf), w1))
         | _ \<Rightarrow> (Inl HttpError, w1)))"

text \<open>\<^verbatim>\<open>path.write_bytes(b)\<close>.\<close>

definition write_bytes :: "world \<Rightarrow> string \<Rightarrow> content \<Rightarrow> (error + unit) \<times> world" where
  "write_bytes w p b =
     (case write_file w p b of
        Inl e \<Rightarrow> (Inl e, w)
      | Inr w1 \<Rightarrow> (Inr (), emit (WriteBytes p) w1))"

subsection \<open>Syncable and ServiceAccount\<close>

record Syncable =
  path :: string
  file_id :: json

record ServiceAccount =
  credentials :: json
  root_dir :: json

text \<open>
  \<^verbatim>\<open>upload\<close>: \<^verbatim>\<open>MediaFileUpload\<close> opens the local file, the request creates the
  remote object under \<^verbatim>\<open>folder_id if folder_id else self.root\<close>, and the id of the
  response is stored in the Syncable.
\<close>

definition upload :: "ServiceAccount \<Rightarrow> world \<Rightarrow> Syncable \<Rightarrow> string option \<Rightarrow> (error + Syncable) \<times> world" where
  "upload self w file folder_id =
     (let parent = (case folder_id of
                      None \<Rightarrow> root_dir self
                    | Some s \<Rightarrow> if s \<noteq> [] then JStr s else root_dir self) in
      case open_read w (path file) of
        Inl e \<Rightarrow> (Inl e, w)
      | Inr body \<Rightarrow>
          (case files_create w (basename (path file)) parent body of
             (Inl e, w1) \<Rightarrow> (Inl e, w1)
           | (Inr i, w1) \<Rightarrow> (Inr (file\<lparr>file_id := i\<rparr>), w1)))"

text \<open>
  \<^verbatim>\<open>update\<close>: \<^verbatim>\<open>MediaFileUpload\<close> opens the local file before the request is
  made.
\<close>

definition update :: "ServiceAccount \<Rightarrow> world \<Rightarrow> Syncable \<Rightarrow> (error + unit) \<times> world" where
  "update self w file =
     (case open_read w (path file) of
        Inl e \<Rightarrow> (Inl e, w)
      | Inr body \<Rightarrow>
          (case files_update w (file_id file) (basename (path file)) body of
             (Inl e, w1) \<Rightarrow> (Inl e, w1)
           | (Inr response, w1) \<Rightarrow> (Inr (), w1)))"

definition download :: "ServiceAccount \<Rightarrow> world \<Rightarrow> Syncable \<Rightarrow> (error + unit) \<times> world" where
  "download self w file =
     (case files_get_media w (file_id file) of
        (Inl e, w1) \<Rightarrow> (Inl e, w1)
      | (Inr response, w1) \<Rightarrow> write_bytes w1 (path file) response)"

text \<open>
  \<^verbatim>\<open>last_mod\<close>: the request for the remote time is executed first, then the local
  file is examined and its time built in UTC, then the remote time is parsed.
\<close>

definition last_mod :: "ServiceAccount \<Rightarrow> world \<Rightarrow> Syncable \<Rightarrow> (error + datetime \<times> datetime) \<times> world" where
  "last_mod self w file =
     (case files_get_modifiedTime w (file_id file) of
        (Inl e, w1) \<Rightarrow> (Inl e, w1)
      | (Inr response, w1) \<Rightarrow>
          (case stat w1 (path file) of
             Inl e \<Rightarrow> (Inl e, w1)
           | Inr mtime \<Rightarrow>
               (case fromtimestamp_utc mtime of
                  Inl e \<Rightarrow> (Inl e, w1)
                | Inr local_modtime \<Rightarrow>
                    (case fromisoformat w1 response of
                       Inl e \<Rightarrow> (Inl e, w1)
                     | Inr remote_modtime \<Rightarrow> (Inr (local_modtime, remote_modtime), w1)))))"

text \<open>
  \<^verbatim>\<open>sync\<close> returns the Syncable, which \<^verbatim>\<open>upload\<close> may have mutated.
\<close>

definition sync :: "ServiceAccount \<Rightarrow> world \<Rightarrow> Syncable \<Rightarrow> (error + Syncable) \<times> world" where
  "sync self w file =
     (if file_id file = JNull then upload self w file None
      else
        (case last_mod self w file of
           (Inl e, w1) \<Rightarrow> (Inl e, w1)
         | (Inr (local_modtime, remote_modtime), w1) \<Rightarrow>
             (case dt_gt local_modtime remote_modtime of
                Inl e \<Rightarrow> (Inl e, w1)
              | Inr True \<Rightarrow>
                  (case update self w1 file of
                     (Inl e, w2) \<Rightarrow> (Inl e, w2)
                   | (Inr u, w2) \<Rightarrow> (Inr file, w2))
              | Inr False \<Rightarrow>
                  (case dt_lt local_modtime remote_modtime of
                     Inl e \<Rightarrow> (Inl e, w1)
                   | Inr True \<Rightarrow>
                       (case download self w1 file of
                          (Inl e, w2) \<Rightarrow> (Inl e, w2)
                        | (Inr u, w2) \<Rightarrow> (Inr file, w2))
                   | Inr False \<Rightarrow> (Inr file, w1)))))"


subsection \<open>The run over the manifest\<close>









subsection \<open>Observing a run\<close>

text \<open>The events a step adds to the trace, and how many of them are transfers.\<close>

definition new_events :: "world \<Rightarrow> world \<Rightarrow> event list" where
  "new_events w w' = drop (length (trace w)) (trace w')"

fun is_create :: "event \<Rightarrow> bool" where
  "is_create (Create nm parent body) = True"
| "is_create _ = False"

fun is_update :: "event \<Rightarrow> bool" where
  "is_update (Update i nm body) = True"
| "is_update _ = False"

fun is_download :: "event \<Rightarrow> bool" where
  "is_download (GetMedia i) = True"
| "is_download _ = False"

fun is_get_modified :: "event \<Rightarrow> bool" where
  "is_get_modified (GetModified i) = True"
| "is_get_modified _ = False"

fun is_dump :: "event \<Rightarrow> bool" where
  "is_dump (Dump j) = True"
| "is_dump _ = False"

definition creates :: "event list \<Rightarrow> nat" where
  "creates es = length (filter is_create es)"

definition updates :: "event list \<Rightarrow> nat" where
  "updates es = length (filter is_update es)"

definition downloads :: "event list \<Rightarrow> nat" where
  "downloads es = length (filter is_download es)"

definition comparisons :: "event list \<Rightarrow> nat" where
  "comparisons es = length (filter is_get_modified es)"

definition dumps :: "event list \<Rightarrow> nat" where
  "dumps es = length (filter is_dump es)"

text \<open>Two timestamps that denote the same instant: neither is before the other.\<close>

definition same_instant :: "datetime \<Rightarrow> datetime \<Rightarrow> bool" where
  "same_instant a b =
     (case (utcoffset a, utcoffset b) of
        (Some oa, Some ob) \<Rightarrow> wall a - oa = wall b - ob
      | (None, None) \<Rightarrow> wall a = wall b
      | _ \<Rightarrow> False)"







subsection \<open>Example data\<close>

text \<open>
  Two local files \<^verbatim>\<open>docs/a.txt\<close> and \<^verbatim>\<open>docs/b.txt\<close> and a directory
  \<^verbatim>\<open>docs/dir\<close>, last written at \<open>local_mtime\<close>; two key files; one remote object
  \<^verbatim>\<open>X\<close>, a copy of the first file, whose modification time the drive reports as
  \<open>remote_time\<close>. It is one second past the epoch, and the drive will name the next
  objects \<^verbatim>\<open>N1\<close> and \<^verbatim>\<open>N2\<close>. No path \<^verbatim>\<open>docs/gone.txt\<close> exists.
\<close>

definition plain_file :: "content \<Rightarrow> int \<Rightarrow> local_file" where
  "plain_file c t = \<lparr>data = c, st_mtime = t, is_dir = False, readable = True, writable = True\<rparr>"

definition demo_key :: json where
  "demo_key = JObj [(''type'', JStr ''service_account''), (''client_email'', JStr ''me@example'')]"

definition demo_service :: ServiceAccount where
  "demo_service = \<lparr>credentials = demo_key, root_dir = JStr ''root''\<rparr>"

definition demo_target :: Syncable where
  "demo_target = \<lparr>path = ''docs/a.txt'', file_id = JStr ''X''\<rparr>"

definition demo_new_target :: Syncable where
  "demo_new_target = \<lparr>path = ''docs/a.txt'', file_id = JNull\<rparr>"

definition demo_world :: "int \<Rightarrow> string \<Rightarrow> world" where
  "demo_world local_mtime remote_time =
     \<lparr>fs = [''docs/a.txt'' \<mapsto> plain_file (Text ''new text'') local_mtime,
            ''docs/b.txt'' \<mapsto> plain_file (Text ''other text'') local_mtime,
            ''docs/dir'' \<mapsto> \<lparr>data = Binary [], st_mtime = local_mtime, is_dir = True,
                             readable = True, writable = True\<rparr>,
            ''key.json'' \<mapsto> plain_file (Doc demo_key) 0,
            ''other.json'' \<mapsto> plain_file (Doc demo_key) 0],
      new_file_error = (\<lambda>p. None),
      key_error = (\<lambda>j. if j = demo_key then None else Some ValueError),
      other_isoformat = (\<lambda>s. Inl ValueError),
      drive = [''X'' \<mapsto> \<lparr>name = ''a.txt'', parents = [JStr ''root''], media = Text ''old text'',
                            modifiedTime = remote_time\<rparr>],
      folders = {''root''},
      refused = {},
      id_supply = [''N1'', ''N2''],
      clock = 1000000,
      trace = []\<rparr>"

text \<open>The same world with the manifest \<^verbatim>\<open>sync.json\<close>, written at the epoch.\<close>

definition with_manifest :: "json \<Rightarrow> world \<Rightarrow> world" where
  "with_manifest sync_details w = w\<lparr>fs := (fs w)(''sync.json'' \<mapsto> plain_file (Doc sync_details) 0)\<rparr>"




text \<open>
  The local file is newer than the remote object; the target is synchronised twice in
  a row.
\<close>

definition demo_first_run :: "(error + Syncable) \<times> world" where
  "demo_first_run =
     sync demo_service (demo_world 200000 ''1970-01-01T00:00:00.100Z'') demo_target"

definition demo_second_run :: "(error + Syncable) \<times> world" where
  "demo_second_run = sync demo_service (snd demo_first_run) demo_target"





definition manifest_world :: "json \<Rightarrow> world" where
  "manifest_world sync_details =
     with_manifest sync_details (demo_world 200000 ''1970-01-01T00:00:00.100Z'')"





section \<open>Properties of one synchronisation\<close>

lemmas method_defs =
  sync_def last_mod_def update_def download_def upload_def files_update_def
  files_get_modifiedTime_def files_get_media_def files_create_def write_bytes_def
  write_file_def open_read_def stat_def json_load_def fromisoformat_def emit_def
  fromtimestamp_utc_def dt_gt_def dt_lt_def basename_def Let_def

lemmas demo_defs =
  demo_service_def demo_world_def demo_target_def demo_new_target_def plain_file_def
  demo_key_def with_manifest_def manifest_world_def

lemmas count_defs =
  new_events_def creates_def updates_def downloads_def comparisons_def dumps_def

lemmas iso_defs =
  iso_time_def iso_zone_def iso_fraction_def number_def digit_def days_from_civil_def
  days_in_month_def is_leap_def Let_def


lemma iso_100: "iso_time ''1970-01-01T00:00:00.100Z'' = Some \<lparr>wall = 100000, utcoffset = Some 0\<rparr>"
  by (simp add: iso_defs)

lemma iso_1s: "iso_time ''1970-01-01T00:00:01.000Z'' = Some \<lparr>wall = 1000000, utcoffset = Some 0\<rparr>"
  by (simp add: iso_defs)

lemma iso_plus2:
  "iso_time ''1970-01-01T02:00:00.1+02:00''
     = Some \<lparr>wall = 7200100000, utcoffset = Some 7200000000\<rparr>"
  by (simp add: iso_defs)

lemma stamp_1s: "rfc3339_utc 1000000 = ''1970-01-01T00:00:01.000Z''"
  by code_simp

lemma stamp_1s1: "rfc3339_utc 1000001 = ''1970-01-01T00:00:01.000Z''"
  by code_simp

lemmas time_evals = iso_100 iso_1s iso_plus2 stamp_1s stamp_1s1

lemma pair_of_fst: "fst p = a \<Longrightarrow> p = (a, snd p)"
  by (cases p) simp

lemma create_only:
  "is_create e \<Longrightarrow>
     \<not> is_get_modified e \<and> \<not> is_update e \<and> \<not> is_download e \<and> \<not> is_dump e"
  by (cases e) simp_all


lemma same_instant_cmp: "same_instant a b \<Longrightarrow> dt_gt a b = Inr False \<and> dt_lt a b = Inr False"
  by (auto simp: same_instant_def dt_gt_def dt_lt_def split: option.splits)

lemma last_mod_world: "snd (last_mod self w file) = emit (GetModified (file_id file)) w"
  by (simp add: last_mod_def files_get_modifiedTime_def Let_def
      split: json.splits option.splits sum.splits)

lemma last_mod_Inr:
  assumes "last_mod self w file = (Inr (l, r), w1)"
  shows "\<exists>i rf lf. file_id file = JStr i \<and> drive w i = Some rf
           \<and> GetModified (file_id file) \<notin> refused w
           \<and> fs w (path file) = Some lf
           \<and> fromtimestamp_utc (st_mtime lf) = Inr l
           \<and> fromisoformat w (modifiedTime rf) = Inr r
           \<and> w1 = emit (GetModified (file_id file)) w"
  using assms
  by (auto simp: last_mod_def files_get_modifiedTime_def stat_def fromisoformat_def emit_def Let_def
           split: json.splits option.splits sum.splits if_splits)

lemma last_mod_again:
  assumes "last_mod self w file = (Inr (l, r), w1)"
  shows "last_mod self (emit e w) file = (Inr (l, r), emit (GetModified (file_id file)) (emit e w))"
proof -
  from last_mod_Inr [OF assms] obtain i rf lf where
    h: "file_id file = JStr i" "drive w i = Some rf" "GetModified (file_id file) \<notin> refused w"
       "fs w (path file) = Some lf" "fromtimestamp_utc (st_mtime lf) = Inr l"
       "fromisoformat w (modifiedTime rf) = Inr r"
    by blast
  have "fromisoformat (emit (GetModified (JStr i)) (emit e w)) (modifiedTime rf) = Inr r"
    using h(6) by (auto simp: fromisoformat_def emit_def split: option.splits)
  then show ?thesis
    using h by (simp add: last_mod_def files_get_modifiedTime_def stat_def emit_def Let_def)
qed


lemma update_open:
  assumes "open_read w (path file) = Inr body"
  shows "trace (snd (update self w file))
           = trace w @ [Update (file_id file) (basename (path file)) body]
       \<and> fs (snd (update self w file)) = fs w"
  using assms
  by (simp add: update_def files_update_def emit_def Let_def
      split: json.splits option.splits)


lemma update_Inr:
  assumes "update self w file = (Inr (), w')"
  shows "\<exists>body. trace w' = trace w @ [Update (file_id file) (basename (path file)) body]"
proof (cases "open_read w (path file)")
  case (Inl e)
  with assms show ?thesis by (simp add: update_def)
next
  case (Inr body)
  from update_open [OF Inr, of self] assms show ?thesis by auto
qed




lemma download_Inr:
  assumes "download self w file = (Inr (), w')"
  shows "trace w' = trace w @ [GetMedia (file_id file), WriteBytes (path file)]"
  using assms
  by (auto simp: download_def files_get_media_def write_bytes_def write_file_def emit_def Let_def
      split: json.splits option.splits sum.splits if_splits)






lemma sync_present_Inr:
  assumes "file_id file \<noteq> JNull" "sync self w file = (Inr file', w')"
  shows "file' = file \<and> (\<exists>l r w1. last_mod self w file = (Inr (l, r), w1)
      \<and> ((dt_gt l r = Inr True \<and> update self w1 file = (Inr (), w'))
        \<or> (dt_gt l r = Inr False \<and> dt_lt l r = Inr True \<and> download self w1 file = (Inr (), w'))
        \<or> (dt_gt l r = Inr False \<and> dt_lt l r = Inr False \<and> w' = w1)))"
  using assms
  by (auto simp: sync_def split: prod.splits sum.splits bool.splits)










text \<open>
  C5. For a target whose remote id is present and whose local and remote modification
  times are the same instant, \<open>sync\<close> returns the target as it was, creates, updates and
  downloads nothing, and leaves the local files and the remote objects as they were.
\<close>

theorem sync_equal_is_noop:
  assumes "file_id file \<noteq> JNull" and "last_mod self w file = (Inr (l, r), w1)"
    and "same_instant l r"
  shows "sync self w file = (Inr file, w1)
       \<and> fs w1 = fs w \<and> drive w1 = drive w
       \<and> creates (new_events w w1) = 0 \<and> updates (new_events w w1) = 0
       \<and> downloads (new_events w w1) = 0"
proof -
  from last_mod_Inr [OF assms(2)] have w1: "w1 = emit (GetModified (file_id file)) w"
    by blast
  have "sync self w file = (Inr file, w1)"
    using assms(1,2) same_instant_cmp [OF assms(3)] by (simp add: sync_def)
  moreover have "new_events w w1 = [GetModified (file_id file)]"
    using w1 by (simp add: new_events_def emit_def)
  ultimately show ?thesis
    using w1 by (simp add: emit_def creates_def updates_def downloads_def)
qed

text \<open>
  A local file written at 0.1 s and a remote object reported at 02:00:00.1 in the zone
  two hours ahead of UTC: the same instant.
\<close>

theorem sync_equal_is_noop_witness:
  "file_id demo_target \<noteq> JNull
   \<and> same_instant \<lparr>wall = 100000, utcoffset = Some 0\<rparr>
        \<lparr>wall = 7200100000, utcoffset = Some 7200000000\<rparr>
   \<and> fst (sync demo_service (demo_world 100000 ''1970-01-01T02:00:00.1+02:00'') demo_target)
       = Inr demo_target
   \<and> new_events (demo_world 100000 ''1970-01-01T02:00:00.1+02:00'')
        (snd (sync demo_service (demo_world 100000 ''1970-01-01T02:00:00.1+02:00'') demo_target))
       = [GetModified (JStr ''X'')]"
proof -
  let ?l = "\<lparr>wall = 100000, utcoffset = Some 0\<rparr>"
  let ?r = "\<lparr>wall = 7200100000, utcoffset = Some 7200000000\<rparr>"
  let ?w = "demo_world 100000 ''1970-01-01T02:00:00.1+02:00''"
  have a: "file_id demo_target \<noteq> JNull" by (simp add: demo_defs)
  have "fst (last_mod demo_service ?w demo_target) = Inr (?l, ?r)"
    by (simp add: method_defs demo_defs time_evals)
  then have lm: "last_mod demo_service ?w demo_target
          = (Inr (?l, ?r), snd (last_mod demo_service ?w demo_target))"
    by (rule pair_of_fst)
  have si: "same_instant ?l ?r"
    by (simp add: same_instant_def)
  from sync_equal_is_noop [OF a lm si] have
    s: "sync demo_service ?w demo_target
          = (Inr demo_target, snd (last_mod demo_service ?w demo_target))"
    by blast
  have t: "new_events ?w (snd (last_mod demo_service ?w demo_target)) = [GetModified (JStr ''X'')]"
    by (simp add: last_mod_world emit_def new_events_def demo_defs)
  show ?thesis using a si s t by simp
qed

text \<open>
  C9. For a target whose remote id is present when \<open>sync\<close> starts, the remote id and the
  local path are the same when \<open>sync\<close> returns, whichever branch was taken.
\<close>

theorem sync_keeps_target:
  assumes "file_id file \<noteq> JNull" and "sync self w file = (Inr file', w')"
  shows "file_id file' = file_id file \<and> path file' = path file"
  using sync_present_Inr [OF assms] by simp

theorem sync_keeps_target_witness:
  "file_id demo_target \<noteq> JNull
   \<and> fst (sync demo_service (demo_world 50000 ''1970-01-01T00:00:00.100Z'') demo_target)
       = Inr \<lparr>path = ''docs/a.txt'', file_id = JStr ''X''\<rparr>
   \<and> file_id \<lparr>path = ''docs/a.txt'', file_id = JStr ''X''\<rparr> = file_id demo_target
   \<and> path \<lparr>path = ''docs/a.txt'', file_id = JStr ''X''\<rparr> = path demo_target"
proof -
  let ?w = "demo_world 50000 ''1970-01-01T00:00:00.100Z''"
  have a: "file_id demo_target \<noteq> JNull" by (simp add: demo_defs)
  have b0: "fst (sync demo_service ?w demo_target)
              = Inr \<lparr>path = ''docs/a.txt'', file_id = JStr ''X''\<rparr>"
    by (simp add: method_defs demo_defs time_evals)
  then have b: "sync demo_service ?w demo_target
              = (Inr \<lparr>path = ''docs/a.txt'', file_id = JStr ''X''\<rparr>,
                 snd (sync demo_service ?w demo_target))"
    by (rule pair_of_fst)
  from sync_keeps_target [OF a b] a b0 show ?thesis by blast
qed

text \<open>
  C6. Synchronising twice in a row a target with a remote id: the claim that the second
  run never transfers fails, because an update stamps the remote object with the time of
  the update and a download stamps the local file with the time of the write, so the two
  times differ again. What holds: when the first run transferred nothing (the two times
  were the same instant), the second run, started in the world the first one left,
  transfers nothing either and leaves the local files and remote objects as they were.
\<close>

theorem second_run_after_noop:
  assumes "file_id file \<noteq> JNull" and "sync self w file = (Inr file1, w1)"
    and "creates (new_events w w1) = 0" and "updates (new_events w w1) = 0"
    and "downloads (new_events w w1) = 0"
  shows "\<exists>w2. sync self w1 file1 = (Inr file1, w2)
           \<and> creates (new_events w1 w2) = 0 \<and> updates (new_events w1 w2) = 0
           \<and> downloads (new_events w1 w2) = 0
           \<and> fs w2 = fs w \<and> drive w2 = drive w"
proof -
  from sync_present_Inr [OF assms(1,2)] obtain l r wm where
    f1: "file1 = file" and lm: "last_mod self w file = (Inr (l, r), wm)" and
    br: "(dt_gt l r = Inr True \<and> update self wm file = (Inr (), w1))
        \<or> (dt_gt l r = Inr False \<and> dt_lt l r = Inr True \<and> download self wm file = (Inr (), w1))
        \<or> (dt_gt l r = Inr False \<and> dt_lt l r = Inr False \<and> w1 = wm)"
    by blast
  from last_mod_Inr [OF lm] have wm: "wm = emit (GetModified (file_id file)) w"
    by blast
  have tm: "trace wm = trace w @ [GetModified (file_id file)]"
    using wm by (simp add: emit_def)
  have no_update: "update self wm file \<noteq> (Inr (), w1)"
  proof
    assume u: "update self wm file = (Inr (), w1)"
    from update_Inr [OF u] tm obtain body where
      "new_events w w1
         = [GetModified (file_id file), Update (file_id file) (basename (path file)) body]"
      by (auto simp: new_events_def)
    with assms(4) show False by (simp add: updates_def)
  qed
  have no_download: "download self wm file \<noteq> (Inr (), w1)"
  proof
    assume d: "download self wm file = (Inr (), w1)"
    from download_Inr [OF d] tm
    have "new_events w w1
            = [GetModified (file_id file), GetMedia (file_id file), WriteBytes (path file)]"
      by (simp add: new_events_def)
    with assms(5) show False by (simp add: downloads_def)
  qed
  from br no_update no_download
  have eq: "dt_gt l r = Inr False" "dt_lt l r = Inr False" "w1 = wm"
    by auto
  have lm2: "last_mod self w1 file = (Inr (l, r), emit (GetModified (file_id file)) w1)"
    using last_mod_again [OF lm, of "GetModified (file_id file)"] eq(3) wm by simp
  have s2: "sync self w1 file1 = (Inr file1, emit (GetModified (file_id file)) w1)"
    using assms(1) f1 lm2 eq by (simp add: sync_def)
  have "new_events w1 (emit (GetModified (file_id file)) w1) = [GetModified (file_id file)]"
    by (simp add: new_events_def emit_def)
  then show ?thesis
    using s2 eq(3) wm by (simp add: creates_def updates_def downloads_def emit_def)
qed

theorem second_run_after_noop_witness:
  "file_id demo_target \<noteq> JNull
   \<and> fst (sync demo_service (demo_world 100000 ''1970-01-01T00:00:00.100Z'') demo_target)
       = Inr demo_target
   \<and> updates (new_events (demo_world 100000 ''1970-01-01T00:00:00.100Z'')
        (snd (sync demo_service (demo_world 100000 ''1970-01-01T00:00:00.100Z'') demo_target))) = 0
   \<and> fst (sync demo_service
        (snd (sync demo_service (demo_world 100000 ''1970-01-01T00:00:00.100Z'') demo_target))
        demo_target) = Inr demo_target
   \<and> downloads (new_events
        (snd (sync demo_service (demo_world 100000 ''1970-01-01T00:00:00.100Z'') demo_target))
        (snd (sync demo_service
           (snd (sync demo_service (demo_world 100000 ''1970-01-01T00:00:00.100Z'') demo_target))
           demo_target))) = 0"
proof -
  let ?w = "demo_world 100000 ''1970-01-01T00:00:00.100Z''"
  let ?w1 = "snd (sync demo_service ?w demo_target)"
  have a: "file_id demo_target \<noteq> JNull" by (simp add: demo_defs)
  have b0: "fst (sync demo_service ?w demo_target) = Inr demo_target"
    by (simp add: method_defs demo_defs time_evals)
  then have b: "sync demo_service ?w demo_target = (Inr demo_target, ?w1)"
    by (rule pair_of_fst)
  have tr: "trace ?w1 = [GetModified (JStr ''X'')]" "trace ?w = []"
    by (simp_all add: method_defs demo_defs time_evals)
  have c: "creates (new_events ?w ?w1) = 0" "updates (new_events ?w ?w1) = 0"
       "downloads (new_events ?w ?w1) = 0"
    using tr by (simp_all add: count_defs)
  from second_run_after_noop [OF a b c] obtain w2 where
    d: "sync demo_service ?w1 demo_target = (Inr demo_target, w2)"
       "downloads (new_events ?w1 w2) = 0"
    by blast
  have e: "fst (sync demo_service ?w1 demo_target) = Inr demo_target"
       "snd (sync demo_service ?w1 demo_target) = w2"
    using d(1) by simp_all
  show ?thesis
    using a b0 c(2) d(2) e by simp
qed

text \<open>
  The local file was written at 0.2 s, the remote object modified at 0.1 s, and it is
  now 1 s. The first run updates the remote object, which the drive stamps with 1 s; the
  second run, started at once with nothing else changed, finds the remote object newer
  and downloads it.
\<close>

theorem second_run_transfers_again:
  "file_id demo_target \<noteq> JNull
   \<and> fst demo_first_run = Inr demo_target
   \<and> new_events (demo_world 200000 ''1970-01-01T00:00:00.100Z'') (snd demo_first_run)
       = [GetModified (JStr ''X''), Update (JStr ''X'') ''a.txt'' (Text ''new text'')]
   \<and> fst demo_second_run = Inr demo_target
   \<and> new_events (snd demo_first_run) (snd demo_second_run)
       = [GetModified (JStr ''X''), GetMedia (JStr ''X''), WriteBytes ''docs/a.txt'']
   \<and> downloads (new_events (snd demo_first_run) (snd demo_second_run)) = 1"
  by (simp add: demo_first_run_def demo_second_run_def method_defs demo_defs time_evals count_defs)










section \<open>Properties of a run over the manifest\<close>

































end
